theory Spec2Isabelle
  imports Main
begin

section \<open>The logger package: data model\<close>

text \<open>
  The repository holds two revisions of the one-file Go package \<^verbatim>\<open>logger\<close>:
  \<^verbatim>\<open>src/logger.go\<close> and \<^verbatim>\<open>src/unnamed/part_000\<close>. They share \<^verbatim>\<open>Init\<close>,
  \<^verbatim>\<open>SetLogLevel\<close>, \<^verbatim>\<open>Stack\<close> and the six facade methods word for word, and differ in
  the initial value of the package variables, in the sugared logger and the formatted
  facade methods (only in \<^verbatim>\<open>part_000\<close>), in the time key and time encoder, and in the
  \<^verbatim>\<open>LocalTime\<close> flag of the rotation writer. Where the two differ the model takes the
  revision as its first argument.
\<close>

datatype revision = logger_go | part_000

text \<open>\<^verbatim>\<open>type Log struct {}\<close>: the handle has no field.\<close>

datatype Log = Log

text \<open>Go errors made by \<^verbatim>\<open>errors.New\<close>, identified by their message.\<close>

datatype error = errors_New string

text \<open>
  \<^verbatim>\<open>zapcore.Level\<close>, an \<^verbatim>\<open>int8\<close> from \<^verbatim>\<open>DebugLevel = -1\<close> to \<^verbatim>\<open>FatalLevel = 5\<close>. Its zero
  value is \<^verbatim>\<open>InfoLevel\<close>.
\<close>

datatype Level = DebugLevel | InfoLevel | WarnLevel | ErrorLevel | DPanicLevel | PanicLevel | FatalLevel

fun Level_int :: "Level \<Rightarrow> int" where
  "Level_int DebugLevel = -1"
| "Level_int InfoLevel = 0"
| "Level_int WarnLevel = 1"
| "Level_int ErrorLevel = 2"
| "Level_int DPanicLevel = 3"
| "Level_int PanicLevel = 4"
| "Level_int FatalLevel = 5"

text \<open>\<^verbatim>\<open>type Config struct\<close>, field by field. Go's \<^verbatim>\<open>int\<close> is read as an integer: the package only compares it with zero.\<close>

record Config =
  EncodeLogsAsJson :: bool
  FileLoggingEnabled :: bool
  Directory :: string
  Filename :: string
  MaxSize :: int
  MaxBackups :: int
  MaxAge :: int
  StackStrace :: bool
  LogLevel :: Level

text \<open>The fields of a log call, by the \<^verbatim>\<open>zap\<close> constructor that made them.\<close>

datatype Field =
    zap_Bool string bool
  | zap_Int string int
  | zap_String string string
  | zap_Int64 string int
  | zap_Duration string int
  | zap_Error "error option"

text \<open>\<^verbatim>\<open>zapcore.EncoderConfig\<close> as \<^verbatim>\<open>newZapLogger\<close> fills it, and the two encoders.\<close>

datatype LevelEncoder = LowercaseLevelEncoder

datatype TimeEncoder = EpochMillisTimeEncoder | ISO8601TimeEncoder

datatype DurationEncoder = NanosDurationEncoder

record EncoderConfig =
  TimeKey :: string
  LevelKey :: string
  NameKey :: string
  CallerKey :: string
  MessageKey :: string
  StacktraceKey :: string
  EncodeLevel :: LevelEncoder
  EncodeTime :: TimeEncoder
  EncodeDuration :: DurationEncoder

datatype Encoder = ConsoleEncoder EncoderConfig | JSONEncoder EncoderConfig

text \<open>
  \<^verbatim>\<open>lumberjack.Logger\<close> as \<^verbatim>\<open>newRollingFile\<close> fills it: file name, size in megabytes, age
  in days, number of backups, and \<^verbatim>\<open>LocalTime\<close> (set only by \<^verbatim>\<open>part_000\<close>).
\<close>

datatype lumberjack_Logger =
  lumberjack_Logger (lj_Filename: string) (lj_MaxSize: int) (lj_MaxAge: int) (lj_MaxBackups: int) (lj_LocalTime: bool)

text \<open>
  A \<^verbatim>\<open>zapcore.WriteSyncer\<close>: one of the process's two standard streams, or a rotation
  writer wrapped by \<^verbatim>\<open>zapcore.AddSync\<close>. The nil interface value is \<open>None\<close> of
  \<open>WriteSyncer option\<close>.
\<close>

datatype WriteSyncer = os_Stdout | os_Stderr | AddSync lumberjack_Logger

text \<open>
  What a destination receives: the text of a \<^verbatim>\<open>fmt.Printf\<close>, or one log record, kept as
  the encoder that renders it with the record's level, message and fields.
\<close>

datatype payload = Text string | Record Encoder Level string "Field list"

type_synonym event = "WriteSyncer \<times> payload"

text \<open>
  A \<^verbatim>\<open>*zap.Logger\<close> as \<^verbatim>\<open>zap.New(zapcore.NewCore(encoder, output, level))\<close> builds
  it. \<^verbatim>\<open>zapcore.NewMultiWriteSyncer(writers...)\<close> keeps the writers in the order given, so
  the output of the core is the list of writers itself. The level is the value
  \<^verbatim>\<open>zap.NewAtomicLevelAt\<close> was given: a fresh atomic level that nothing in the package
  changes afterwards.
\<close>

record zap_Logger =
  core_enc :: Encoder
  core_out :: "WriteSyncer option list"
  core_level :: Level

text \<open>
  The process: the package variables \<^verbatim>\<open>DefaultZapLogger\<close>, \<^verbatim>\<open>DefaultZapSugaredLogger\<close>
  (declared by \<^verbatim>\<open>part_000\<close> only; a sugared logger shares the core of the logger it was
  made from) and \<^verbatim>\<open>DefaultLoggerConfig\<close>, the logger that \<^verbatim>\<open>zap.RedirectStdLog\<close> last
  installed, and the trace of everything written so far, oldest first. A nil pointer is
  \<open>None\<close>.
\<close>

record state =
  DefaultZapLogger :: "zap_Logger option"
  DefaultZapSugaredLogger :: "zap_Logger option"
  DefaultLoggerConfig :: Config
  stdLog :: "zap_Logger option"
  trace :: "event list"

text \<open>
  What the package asks of its surroundings and does not decide itself: whether
  \<^verbatim>\<open>os.MkdirAll\<close> succeeds on a directory (\<open>None\<close>) or fails with an error of some text,
  and the results of \<^verbatim>\<open>filepath.Dir\<close> and \<^verbatim>\<open>path.Join\<close>, which the package only stores.
\<close>

record env =
  os_MkdirAll :: "string \<Rightarrow> string option"
  filepath_Dir :: "string \<Rightarrow> string"
  path_Join :: "string \<Rightarrow> string \<Rightarrow> string"

text \<open>How a facade call ends: it returns, it panics with a message (\<^verbatim>\<open>Panic\<close>), it exits
  the process (\<^verbatim>\<open>Fatal\<close>), or it dereferences nil, which is Go's run-time panic.\<close>

datatype outcome = Returned | Panicked string | Exited | NilDereference

text \<open>A stack frame as \<^verbatim>\<open>runtime.Caller\<close> reports it: file, function name, line.\<close>

type_synonym frame = "string \<times> string \<times> int"

section \<open>Library functions the package calls\<close>

text \<open>
  \<^verbatim>\<open>filepath.Base\<close> of Go's standard library, on a system whose separator is the slash
  and that has no volume names: the empty path gives \<^verbatim>\<open>"."\<close>; trailing separators are
  removed; the result is what follows the last separator left; a path of separators only
  gives \<^verbatim>\<open>"/"\<close>.
\<close>

definition IsPathSeparator :: "char \<Rightarrow> bool" where
  "IsPathSeparator c = (c = CHR ''/'')"

definition filepath_Base :: "string \<Rightarrow> string" where
  "filepath_Base path =
     (if path = [] then ''.''
      else
        let stripped = rev (dropWhile IsPathSeparator (rev path));
            elem = rev (takeWhile (\<lambda>c. \<not> IsPathSeparator c) (rev stripped))
        in if elem = [] then ''/'' else elem)"

text \<open>\<^verbatim>\<open>%d\<close> of \<^verbatim>\<open>fmt.Sprintf\<close> on an \<^verbatim>\<open>int\<close>: decimal digits, a minus sign before a negative number.\<close>

definition digit :: "nat \<Rightarrow> char" where
  "digit d = ''0123456789'' ! d"

fun digits :: "nat \<Rightarrow> string" where
  "digits n = (if n < 10 then [digit n] else digits (n div 10) @ [digit (n mod 10)])"

definition itoa :: "int \<Rightarrow> string" where
  "itoa i = (if i < 0 then CHR ''-'' # digits (nat (- i)) else digits (nat i))"

text \<open>
  \<^verbatim>\<open>runtime.Caller(skip)\<close>, given the stack of the running goroutine, innermost frame
  first: frame 0 is the function that calls \<^verbatim>\<open>runtime.Caller\<close>, frame 1 its caller, and
  so on; \<^verbatim>\<open>ok\<close> is false (\<open>None\<close>) when the stack has no such frame.
\<close>

definition runtime_Caller :: "nat \<Rightarrow> frame list \<Rightarrow> frame option" where
  "runtime_Caller skip stk = (if skip < length stk then Some (stk ! skip) else None)"

text \<open>
  Writing one record to the writers of a core, as \<^verbatim>\<open>multiWriteSyncer.Write\<close> does: each
  writer in turn receives it. Calling \<^verbatim>\<open>Write\<close> on a nil writer is a nil dereference, which
  ends the loop: the result is \<open>False\<close> and the writers before it have been written.
\<close>

fun multiWrite :: "WriteSyncer option list \<Rightarrow> payload \<Rightarrow> event list \<Rightarrow> bool \<times> event list" where
  "multiWrite [] p tr = (True, tr)"
| "multiWrite (None # ws) p tr = (False, tr)"
| "multiWrite (Some w # ws) p tr = multiWrite ws p (tr @ [(w, p)])"

text \<open>The level filter of a core: a record passes when its level is at least the core's.\<close>

definition Enabled :: "zap_Logger \<Rightarrow> Level \<Rightarrow> bool" where
  "Enabled lg l = (Level_int (core_level lg) \<le> Level_int l)"

text \<open>What \<^verbatim>\<open>zap\<close> does after a record of a level: \<^verbatim>\<open>Panic\<close> panics with the message,
  \<^verbatim>\<open>Fatal\<close> exits, whether or not the record was written.\<close>

definition after_write :: "Level \<Rightarrow> string \<Rightarrow> outcome" where
  "after_write l msg =
     (if l = PanicLevel then Panicked msg else if l = FatalLevel then Exited else Returned)"

text \<open>
  One call of \<^verbatim>\<open>(*zap.Logger).Debug\<close>, \<^verbatim>\<open>Info\<close>, ..., \<^verbatim>\<open>Fatal\<close> on a logger pointer: a nil
  pointer is dereferenced at once; otherwise the record is written to every writer if it
  passes the filter.
\<close>

definition Logger_log ::
  "zap_Logger option \<Rightarrow> Level \<Rightarrow> string \<Rightarrow> Field list \<Rightarrow> state \<Rightarrow> outcome \<times> state" where
  "Logger_log lg l msg flds s =
     (case lg of
        None \<Rightarrow> (NilDereference, s)
      | Some c \<Rightarrow>
          if Enabled c l then
            (case multiWrite (core_out c) (Record (core_enc c) l msg flds) (trace s) of
               (ok, tr) \<Rightarrow> (if ok then after_write l msg else NilDereference, s\<lparr>trace := tr\<rparr>))
          else (after_write l msg, s))"

section \<open>The package\<close>

text \<open>The zero values of the package variables.\<close>

definition zero_Config :: Config where
  "zero_Config =
     \<lparr>EncodeLogsAsJson = False, FileLoggingEnabled = False, Directory = [], Filename = [],
      MaxSize = 0, MaxBackups = 0, MaxAge = 0, StackStrace = False, LogLevel = InfoLevel\<rparr>"

definition zero_state :: state where
  "zero_state =
     \<lparr>DefaultZapLogger = None, DefaultZapSugaredLogger = None,
      DefaultLoggerConfig = zero_Config, stdLog = None, trace = []\<rparr>"

text \<open>\<^verbatim>\<open>func SetLogLevel(level string) error\<close>\<close>

definition SetLogLevel :: "string \<Rightarrow> state \<Rightarrow> error option \<times> state" where
  "SetLogLevel level s =
     (if level = ''debug'' then
        (None, s\<lparr>DefaultLoggerConfig := (DefaultLoggerConfig s)\<lparr>LogLevel := DebugLevel\<rparr>\<rparr>)
      else if level = ''info'' then
        (None, s\<lparr>DefaultLoggerConfig := (DefaultLoggerConfig s)\<lparr>LogLevel := InfoLevel\<rparr>\<rparr>)
      else if level = ''warn'' then
        (None, s\<lparr>DefaultLoggerConfig := (DefaultLoggerConfig s)\<lparr>LogLevel := WarnLevel\<rparr>\<rparr>)
      else if level = ''error'' then
        (None, s\<lparr>DefaultLoggerConfig := (DefaultLoggerConfig s)\<lparr>LogLevel := ErrorLevel\<rparr>\<rparr>)
      else (Some (errors_New ''Bad log level''), s))"

text \<open>
  \<^verbatim>\<open>func newZapLogger(encodeAsJSON bool, output zapcore.WriteSyncer) *zap.Logger\<close>. It
  reads the package variable \<^verbatim>\<open>DefaultLoggerConfig.LogLevel\<close>. The revisions differ in the
  time key and the time encoder.
\<close>

definition newZapLogger :: "revision \<Rightarrow> bool \<Rightarrow> WriteSyncer option list \<Rightarrow> state \<Rightarrow> zap_Logger" where
  "newZapLogger r encodeAsJSON out s =
     (let encCfg =
            \<lparr>TimeKey = (case r of logger_go \<Rightarrow> ''timestamp'' | part_000 \<Rightarrow> ''time''),
             LevelKey = ''level'',
             NameKey = ''logger'',
             CallerKey = ''caller'',
             MessageKey = ''msg'',
             StacktraceKey = ''stacktrace'',
             EncodeLevel = LowercaseLevelEncoder,
             EncodeTime = (case r of logger_go \<Rightarrow> EpochMillisTimeEncoder | part_000 \<Rightarrow> ISO8601TimeEncoder),
             EncodeDuration = NanosDurationEncoder\<rparr>;
          encoder = (if encodeAsJSON then JSONEncoder encCfg else ConsoleEncoder encCfg)
      in \<lparr>core_enc = encoder, core_out = out, core_level = LogLevel (DefaultLoggerConfig s)\<rparr>)"

text \<open>
  \<^verbatim>\<open>func newRollingFile(config Config) zapcore.WriteSyncer\<close>. When \<^verbatim>\<open>os.MkdirAll\<close> fails it
  prints with \<^verbatim>\<open>fmt.Printf\<close>, which writes to \<^verbatim>\<open>os.Stdout\<close>, and returns nil.
\<close>

definition newRollingFile :: "revision \<Rightarrow> env \<Rightarrow> Config \<Rightarrow> state \<Rightarrow> WriteSyncer option \<times> state" where
  "newRollingFile r e config s =
     (case os_MkdirAll e (Directory config) of
        Some err \<Rightarrow>
          (None,
           s\<lparr>trace := trace s @
              [(os_Stdout,
                Text (''Failed create log directory in '' @ Directory config @ '', error: '' @ err @ [CHR 0x0A]))]\<rparr>)
      | None \<Rightarrow>
          (Some (AddSync (lumberjack_Logger
                   (path_Join e (Directory config) (Filename config))
                   (MaxSize config) (MaxAge config) (MaxBackups config)
                   (r = part_000))),
           s))"

text \<open>
  \<^verbatim>\<open>func Configure(config Config)\<close>. The logger is built before \<^verbatim>\<open>DefaultLoggerConfig\<close> is
  assigned. \<^verbatim>\<open>part_000\<close> also stores the sugared logger.
\<close>

definition Configure :: "revision \<Rightarrow> env \<Rightarrow> Config \<Rightarrow> state \<Rightarrow> state" where
  "Configure r e config s =
     (case (if FileLoggingEnabled config then
              (case newRollingFile r e config s of (w, s') \<Rightarrow> ([Some os_Stdout, w], s'))
            else ([Some os_Stdout], s)) of
        (writers, s1) \<Rightarrow>
          let lg = newZapLogger r (EncodeLogsAsJson config) writers s1;
              s2 = s1\<lparr>DefaultZapLogger := Some lg, stdLog := Some lg\<rparr>;
              s3 = (case r of logger_go \<Rightarrow> s2 | part_000 \<Rightarrow> s2\<lparr>DefaultZapSugaredLogger := Some lg\<rparr>)
          in s3\<lparr>DefaultLoggerConfig := config\<rparr>)"

text \<open>
  \<^verbatim>\<open>func Init(file, level string, size, backup int, stackstrace bool) (Log, error)\<close>. The
  fields the composite literal leaves out (\<^verbatim>\<open>MaxAge\<close>, \<^verbatim>\<open>LogLevel\<close>) have their zero values; the
  parameter \<^verbatim>\<open>size\<close> is \<open>sz\<close> here.
\<close>

definition Init ::
  "revision \<Rightarrow> env \<Rightarrow> string \<Rightarrow> string \<Rightarrow> int \<Rightarrow> int \<Rightarrow> bool \<Rightarrow> state \<Rightarrow> (Log \<times> error option) \<times> state" where
  "Init r e file level sz backup stackstrace s =
     (let log = Log;
          name = filepath_Base file
      in if name = [] then ((log, Some (errors_New ''Bad file'')), s)
         else
           let dir0 = filepath_Dir e file;
               dir = (if dir0 = [] then ''./'' else dir0)
           in if sz < 0 \<or> backup < 0 then ((log, Some (errors_New ''Bad size or backup'')), s)
              else
                let config =
                      \<lparr>EncodeLogsAsJson = True, FileLoggingEnabled = True, Directory = dir,
                       Filename = name, MaxSize = sz, MaxBackups = backup, MaxAge = 0,
                       StackStrace = stackstrace, LogLevel = InfoLevel\<rparr>;
                    level1 = (if level = [] then ''error'' else level)
                in (case SetLogLevel level1 s of
                      (Some err, s') \<Rightarrow> ((log, Some err), s')
                    | (None, s') \<Rightarrow> ((log, None), Configure r e config s')))"

text \<open>
  The package variables when the process starts. \<^verbatim>\<open>logger.go\<close> initialises
  \<^verbatim>\<open>DefaultZapLogger = newZapLogger(false, os.Stdout)\<close>, which reads the zero
  \<^verbatim>\<open>DefaultLoggerConfig\<close>; \<^verbatim>\<open>part_000\<close> declares both loggers with no initialiser, so they
  are nil.
\<close>

definition initial :: "revision \<Rightarrow> state" where
  "initial r =
     (case r of
        logger_go \<Rightarrow>
          zero_state\<lparr>DefaultZapLogger := Some (newZapLogger logger_go False [Some os_Stdout] zero_state)\<rparr>
      | part_000 \<Rightarrow> zero_state)"

text \<open>
  \<^verbatim>\<open>func Stack() zapcore.Field\<close>, given the frames of its callers, innermost first (the
  first is the facade method that called it). Its own frame is frame 0 of
  \<^verbatim>\<open>runtime.Caller\<close> and is never read, since \<^verbatim>\<open>skip\<close> is 2.
\<close>

definition Stack_frame :: frame where
  "Stack_frame = (''logger.go'', ''logger.Stack'', 136)"

definition Stack :: "frame list \<Rightarrow> Field" where
  "Stack callers =
     (let src = (case runtime_Caller 2 (Stack_frame # callers) of
                   Some (file, fn, lineno) \<Rightarrow> file @ '':'' @ fn @ '':'' @ itoa lineno
                 | None \<Rightarrow> [])
      in zap_String ''stacktrace'' src)"

text \<open>
  The facade. \<^verbatim>\<open>Debug\<close> takes the stack of the goroutine on entry, innermost first: its
  own frame, then the frame of its caller.
\<close>

definition Debug :: "frame list \<Rightarrow> string \<Rightarrow> Field list \<Rightarrow> state \<Rightarrow> outcome \<times> state" where
  "Debug stk msg flds s =
     (if StackStrace (DefaultLoggerConfig s) then
        Logger_log (DefaultZapLogger s) DebugLevel msg (flds @ [Stack stk]) s
      else Logger_log (DefaultZapLogger s) DebugLevel msg flds s)"

definition Info :: "string \<Rightarrow> Field list \<Rightarrow> state \<Rightarrow> outcome \<times> state" where
  "Info msg flds s = Logger_log (DefaultZapLogger s) InfoLevel msg flds s"

definition Warn :: "string \<Rightarrow> Field list \<Rightarrow> state \<Rightarrow> outcome \<times> state" where
  "Warn msg flds s = Logger_log (DefaultZapLogger s) WarnLevel msg flds s"

definition Error :: "string \<Rightarrow> Field list \<Rightarrow> state \<Rightarrow> outcome \<times> state" where
  "Error msg flds s = Logger_log (DefaultZapLogger s) ErrorLevel msg flds s"

definition Panic :: "string \<Rightarrow> Field list \<Rightarrow> state \<Rightarrow> outcome \<times> state" where
  "Panic msg flds s = Logger_log (DefaultZapLogger s) PanicLevel msg flds s"

definition Fatal :: "string \<Rightarrow> Field list \<Rightarrow> state \<Rightarrow> outcome \<times> state" where
  "Fatal msg flds s = Logger_log (DefaultZapLogger s) FatalLevel msg flds s"

text \<open>
  The formatted methods of \<^verbatim>\<open>part_000\<close> go through \<^verbatim>\<open>DefaultZapSugaredLogger\<close>; the
  message is the template rendered with the arguments by \<^verbatim>\<open>fmt.Sprintf\<close>, here the
  function \<open>sprintf\<close>, and the record has no field.
\<close>

definition Infof :: "(string \<Rightarrow> 'a list \<Rightarrow> string) \<Rightarrow> string \<Rightarrow> 'a list \<Rightarrow> state \<Rightarrow> outcome \<times> state" where
  "Infof sprintf msg args s = Logger_log (DefaultZapSugaredLogger s) InfoLevel (sprintf msg args) [] s"

definition Warnf :: "(string \<Rightarrow> 'a list \<Rightarrow> string) \<Rightarrow> string \<Rightarrow> 'a list \<Rightarrow> state \<Rightarrow> outcome \<times> state" where
  "Warnf sprintf msg args s = Logger_log (DefaultZapSugaredLogger s) WarnLevel (sprintf msg args) [] s"

definition Errorf :: "(string \<Rightarrow> 'a list \<Rightarrow> string) \<Rightarrow> string \<Rightarrow> 'a list \<Rightarrow> state \<Rightarrow> outcome \<times> state" where
  "Errorf sprintf msg args s = Logger_log (DefaultZapSugaredLogger s) ErrorLevel (sprintf msg args) [] s"

definition Panicf :: "(string \<Rightarrow> 'a list \<Rightarrow> string) \<Rightarrow> string \<Rightarrow> 'a list \<Rightarrow> state \<Rightarrow> outcome \<times> state" where
  "Panicf sprintf msg args s = Logger_log (DefaultZapSugaredLogger s) PanicLevel (sprintf msg args) [] s"

definition Fatalf :: "(string \<Rightarrow> 'a list \<Rightarrow> string) \<Rightarrow> string \<Rightarrow> 'a list \<Rightarrow> state \<Rightarrow> outcome \<times> state" where
  "Fatalf sprintf msg args s = Logger_log (DefaultZapSugaredLogger s) FatalLevel (sprintf msg args) [] s"


section \<open>Example inputs\<close>

text \<open>
  Two surroundings for the examples below. In both the directory of every path is
  \<^verbatim>\<open>/tmp\<close> and joining puts a slash between directory and file name. In the first every
  directory can be created; in the second \<^verbatim>\<open>os.MkdirAll\<close> always fails.
\<close>

definition env_tmp :: env where
  "env_tmp =
     \<lparr>os_MkdirAll = (\<lambda>d. None), filepath_Dir = (\<lambda>p. ''/tmp''),
      path_Join = (\<lambda>d f. d @ ''/'' @ f)\<rparr>"


text \<open>A configuration with file logging on, console encoding, and level field \<^verbatim>\<open>FatalLevel\<close>.\<close>

definition example_Config :: Config where
  "example_Config =
     \<lparr>EncodeLogsAsJson = False, FileLoggingEnabled = True, Directory = ''/var/log/app'',
      Filename = ''app.log'', MaxSize = 20, MaxBackups = 1, MaxAge = 0, StackStrace = False,
      LogLevel = FatalLevel\<rparr>"

text \<open>A process whose logger passes debug records; the argument is \<^verbatim>\<open>StackStrace\<close>.\<close>

definition debug_state :: "bool \<Rightarrow> state" where
  "debug_state st =
     \<lparr>DefaultZapLogger =
        Some \<lparr>core_enc =
                JSONEncoder
                  \<lparr>TimeKey = ''time'', LevelKey = ''level'', NameKey = ''logger'',
                   CallerKey = ''caller'', MessageKey = ''msg'', StacktraceKey = ''stacktrace'',
                   EncodeLevel = LowercaseLevelEncoder, EncodeTime = ISO8601TimeEncoder,
                   EncodeDuration = NanosDurationEncoder\<rparr>,
              core_out = [Some os_Stdout], core_level = DebugLevel\<rparr>,
      DefaultZapSugaredLogger = None,
      DefaultLoggerConfig = zero_Config\<lparr>StackStrace := st, LogLevel := DebugLevel\<rparr>,
      stdLog = None, trace = []\<rparr>"

section \<open>Auxiliary facts\<close>

lemma filepath_Base_nonempty: "filepath_Base path \<noteq> []"
  by (simp add: filepath_Base_def Let_def)

lemma newRollingFile_globals:
  "DefaultLoggerConfig (snd (newRollingFile r e config s)) = DefaultLoggerConfig s"
  by (simp add: newRollingFile_def split: option.splits)


lemma newZapLogger_level: "core_level (newZapLogger r j ws s) = LogLevel (DefaultLoggerConfig s)"
  by (simp add: newZapLogger_def Let_def)


text \<open>The logger \<^verbatim>\<open>Configure\<close> publishes, in one equation.\<close>

lemma Configure_logger:
  "DefaultZapLogger (Configure r e config s) =
     Some (newZapLogger r (EncodeLogsAsJson config)
             (Some os_Stdout # (if FileLoggingEnabled config then [fst (newRollingFile r e config s)] else [])) s)"
  by (cases r; cases "newRollingFile r e config s")
     (use newRollingFile_globals [of r e config s] in
       \<open>simp_all add: Configure_def Let_def newZapLogger_def\<close>)

text \<open>
  \<^verbatim>\<open>Configure\<close> ends by storing its argument, level field included: the level set by
  \<^verbatim>\<open>SetLogLevel\<close> lives on in the published logger only.
\<close>

lemma Configure_stores_config: "DefaultLoggerConfig (Configure r e config s) = config"
  by (cases r) (simp_all add: Configure_def Let_def split: prod.splits)

lemma Enabled_ErrorLevel:
  "core_level lg = ErrorLevel \<Longrightarrow> Enabled lg l = (l \<in> {ErrorLevel, DPanicLevel, PanicLevel, FatalLevel})"
  by (cases l) (simp_all add: Enabled_def)


lemma Stack_with_caller:
  "Stack (d # (file, fn, lineno) # rest) =
     zap_String ''stacktrace'' (file @ '':'' @ fn @ '':'' @ itoa lineno)"
  by (simp add: Stack_def runtime_Caller_def)

lemma Stack_without_caller: "length stk < 2 \<Longrightarrow> Stack stk = zap_String ''stacktrace'' []"
  by (simp add: Stack_def runtime_Caller_def)

lemma itoa_12: "itoa 12 = ''12''"
  by (simp add: itoa_def digit_def)

text \<open>No call of \<^verbatim>\<open>Init\<close> returns the error \<^verbatim>\<open>Bad file\<close>.\<close>

lemma Init_never_Bad_file:
  "snd (fst (Init r e file level sz backup stackstrace s)) \<noteq> Some (errors_New ''Bad file'')"
  by (simp add: Init_def Let_def filepath_Base_nonempty SetLogLevel_def split: if_splits)

text \<open>
  After a successful \<^verbatim>\<open>Init\<close> the stored configuration is the composite literal, whose
  level field is the zero value: the level \<^verbatim>\<open>SetLogLevel\<close> set is kept by the published
  logger, not by \<^verbatim>\<open>DefaultLoggerConfig\<close>.
\<close>

lemma Init_stores_zero_level:
  "snd (fst (Init r e file level sz backup stackstrace s)) = None \<Longrightarrow>
     LogLevel (DefaultLoggerConfig (snd (Init r e file level sz backup stackstrace s))) = InfoLevel"
  by (simp add: Init_def Let_def filepath_Base_nonempty SetLogLevel_def Configure_stores_config
        split: if_splits)

text \<open>
  In the revision \<^verbatim>\<open>logger.go\<close> the six facade methods work on the initial logger: the
  four below \<^verbatim>\<open>Panic\<close> return, \<^verbatim>\<open>Panic\<close> panics with its message and \<^verbatim>\<open>Fatal\<close> exits.
\<close>

lemma facade_before_Configure_logger_go:
  "fst (Debug stk msg flds (initial logger_go)) = Returned
   \<and> fst (Info msg flds (initial logger_go)) = Returned
   \<and> fst (Warn msg flds (initial logger_go)) = Returned
   \<and> fst (Error msg flds (initial logger_go)) = Returned
   \<and> fst (Panic msg flds (initial logger_go)) = Panicked msg
   \<and> fst (Fatal msg flds (initial logger_go)) = Exited"
  by (simp add: initial_def zero_state_def zero_Config_def Debug_def Info_def Warn_def Error_def
        Panic_def Fatal_def Logger_log_def Enabled_def newZapLogger_def Let_def after_write_def)

section \<open>The claims\<close>

text \<open>
  C1. The claim: whenever the file name obtained by splitting the path is empty, in
  particular for the empty path, \<^verbatim>\<open>Init\<close> returns the error \<^verbatim>\<open>Bad file\<close>. The code tests
  \<^verbatim>\<open>filepath.Base(file) == ""\<close>, but \<^verbatim>\<open>filepath.Base\<close> never returns the empty string: for
  the empty path it returns \<^verbatim>\<open>"."\<close>. So \<^verbatim>\<open>Init("", "error", 10, 3, false)\<close> is not
  rejected: it returns no error, whatever the revision, the surroundings and the state
  before.
\<close>

theorem Init_empty_path_is_not_rejected:
  "fst (Init r e [] ''error'' 10 3 False s) = (Log, None)"
  by (simp add: Init_def Let_def filepath_Base_def SetLogLevel_def)




text \<open>
  C3. \<^verbatim>\<open>SetLogLevel\<close> succeeds exactly on the four names \<^verbatim>\<open>debug\<close>, \<^verbatim>\<open>info\<close>, \<^verbatim>\<open>warn\<close> and
  \<^verbatim>\<open>error\<close>, compared as they are written; it then stores the level of that name and
  changes nothing else. On every other string it returns the error \<^verbatim>\<open>Bad log level\<close> and
  leaves the whole state, the stored level included, as it was.
\<close>

theorem SetLogLevel_accepts_exactly_four_names:
  "(fst (SetLogLevel name s) = None \<longleftrightarrow> name \<in> {''debug'', ''info'', ''warn'', ''error''})
   \<and> (name = ''debug'' \<longrightarrow>
        SetLogLevel name s = (None, s\<lparr>DefaultLoggerConfig := (DefaultLoggerConfig s)\<lparr>LogLevel := DebugLevel\<rparr>\<rparr>))
   \<and> (name = ''info'' \<longrightarrow>
        SetLogLevel name s = (None, s\<lparr>DefaultLoggerConfig := (DefaultLoggerConfig s)\<lparr>LogLevel := InfoLevel\<rparr>\<rparr>))
   \<and> (name = ''warn'' \<longrightarrow>
        SetLogLevel name s = (None, s\<lparr>DefaultLoggerConfig := (DefaultLoggerConfig s)\<lparr>LogLevel := WarnLevel\<rparr>\<rparr>))
   \<and> (name = ''error'' \<longrightarrow>
        SetLogLevel name s = (None, s\<lparr>DefaultLoggerConfig := (DefaultLoggerConfig s)\<lparr>LogLevel := ErrorLevel\<rparr>\<rparr>))
   \<and> (name \<notin> {''debug'', ''info'', ''warn'', ''error''} \<longrightarrow>
        SetLogLevel name s = (Some (errors_New ''Bad log level''), s))"
  by (simp add: SetLogLevel_def)

theorem SetLogLevel_witness:
  "SetLogLevel ''warn'' zero_state =
     (None, zero_state\<lparr>DefaultLoggerConfig := (DefaultLoggerConfig zero_state)\<lparr>LogLevel := WarnLevel\<rparr>\<rparr>)
   \<and> SetLogLevel ''WARN'' zero_state = (Some (errors_New ''Bad log level''), zero_state)
   \<and> SetLogLevel ''fatal'' zero_state = (Some (errors_New ''Bad log level''), zero_state)"
  using SetLogLevel_accepts_exactly_four_names [of "''warn''" zero_state]
        SetLogLevel_accepts_exactly_four_names [of "''WARN''" zero_state]
        SetLogLevel_accepts_exactly_four_names [of "''fatal''" zero_state]
  by simp

text \<open>
  C4. The logger \<^verbatim>\<open>Configure\<close> publishes filters at the level stored in
  \<^verbatim>\<open>DefaultLoggerConfig\<close> when \<^verbatim>\<open>Configure\<close> is entered, and encodes as JSON exactly when
  the argument asks for it. The level field of the argument plays no part: with any other
  value in it the same logger is published.
\<close>

theorem Configure_filters_at_current_level:
  "\<exists>lg. DefaultZapLogger (Configure r e config s) = Some lg
      \<and> core_level lg = LogLevel (DefaultLoggerConfig s)
      \<and> (\<forall>l. Enabled lg l = (Level_int (LogLevel (DefaultLoggerConfig s)) \<le> Level_int l))
      \<and> (case core_enc lg of
            JSONEncoder c \<Rightarrow> EncodeLogsAsJson config
          | ConsoleEncoder c \<Rightarrow> \<not> EncodeLogsAsJson config)
      \<and> DefaultZapLogger (Configure r e (config\<lparr>LogLevel := l'\<rparr>) s) = Some lg"
  by (simp add: Configure_logger newZapLogger_level Enabled_def)
     (simp add: newZapLogger_def Let_def newRollingFile_def split: option.splits)

theorem Configure_filters_at_current_level_witness:
  "map_option core_level
     (DefaultZapLogger
        (Configure logger_go env_tmp example_Config (snd (SetLogLevel ''warn'' (initial logger_go)))))
     = Some WarnLevel"
  using Configure_filters_at_current_level
          [of logger_go env_tmp example_Config "snd (SetLogLevel ''warn'' (initial logger_go))" FatalLevel]
  by (auto simp add: SetLogLevel_def)

text \<open>
  C5. The claim: when the process starts the package variables hold safe defaults, so that
  every facade method can be called before \<^verbatim>\<open>Init\<close> or \<^verbatim>\<open>Configure\<close>. In the revision
  \<^verbatim>\<open>part_000\<close> both loggers start as nil: each of the six methods and each of the five
  formatted methods dereferences nil when called first.
\<close>

theorem facade_faults_before_Configure_part_000:
  "fst (Debug stk msg flds (initial part_000)) = NilDereference
   \<and> fst (Info msg flds (initial part_000)) = NilDereference
   \<and> fst (Warn msg flds (initial part_000)) = NilDereference
   \<and> fst (Error msg flds (initial part_000)) = NilDereference
   \<and> fst (Panic msg flds (initial part_000)) = NilDereference
   \<and> fst (Fatal msg flds (initial part_000)) = NilDereference
   \<and> fst (Infof sprintf msg args (initial part_000)) = NilDereference
   \<and> fst (Warnf sprintf msg args (initial part_000)) = NilDereference
   \<and> fst (Errorf sprintf msg args (initial part_000)) = NilDereference
   \<and> fst (Panicf sprintf msg args (initial part_000)) = NilDereference
   \<and> fst (Fatalf sprintf msg args (initial part_000)) = NilDereference"
  by (simp add: initial_def zero_state_def Debug_def Info_def Warn_def Error_def Panic_def Fatal_def
        Infof_def Warnf_def Errorf_def Panicf_def Fatalf_def Logger_log_def)



text \<open>
  C7. \<^verbatim>\<open>Debug\<close> with \<^verbatim>\<open>StackStrace\<close> set passes on the caller's fields followed by one
  more field, named \<^verbatim>\<open>stacktrace\<close>: its value is file, function and line of the caller
  of \<^verbatim>\<open>Debug\<close> (frame 2 counted from \<^verbatim>\<open>Stack\<close>, whose own frame is 0 and \<^verbatim>\<open>Debug\<close>'s is
  1), and the empty string when the stack has no such frame. With \<^verbatim>\<open>StackStrace\<close> unset
  it passes on the caller's fields alone.
\<close>

theorem Debug_appends_caller_location:
  "(StackStrace (DefaultLoggerConfig s) \<longrightarrow>
      (\<forall>d file fn lineno rest. stk = d # (file, fn, lineno) # rest \<longrightarrow>
         Debug stk msg flds s =
           Logger_log (DefaultZapLogger s) DebugLevel msg
             (flds @ [zap_String ''stacktrace'' (file @ '':'' @ fn @ '':'' @ itoa lineno)]) s)
      \<and> (length stk < 2 \<longrightarrow>
         Debug stk msg flds s =
           Logger_log (DefaultZapLogger s) DebugLevel msg (flds @ [zap_String ''stacktrace'' []]) s))
   \<and> (\<not> StackStrace (DefaultLoggerConfig s) \<longrightarrow>
         Debug stk msg flds s = Logger_log (DefaultZapLogger s) DebugLevel msg flds s)"
  by (simp add: Debug_def Stack_with_caller Stack_without_caller)

theorem Debug_appends_caller_location_witness:
  "Debug [(''logger.go'', ''logger.(*Log).Debug'', 83), (''main.go'', ''main.run'', 12),
          (''main.go'', ''main.main'', 30)]
      ''hello'' [zap_Int ''n'' 1] (debug_state True)
    = Logger_log (DefaultZapLogger (debug_state True)) DebugLevel ''hello''
        [zap_Int ''n'' 1, zap_String ''stacktrace'' ''main.go:main.run:12''] (debug_state True)
   \<and> Debug [] ''hello'' [zap_Int ''n'' 1] (debug_state True)
    = Logger_log (DefaultZapLogger (debug_state True)) DebugLevel ''hello''
        [zap_Int ''n'' 1, zap_String ''stacktrace'' []] (debug_state True)
   \<and> Debug [(''logger.go'', ''logger.(*Log).Debug'', 83), (''main.go'', ''main.run'', 12)]
      ''hello'' [zap_Int ''n'' 1] (debug_state False)
    = Logger_log (DefaultZapLogger (debug_state False)) DebugLevel ''hello'' [zap_Int ''n'' 1]
        (debug_state False)"
  using Debug_appends_caller_location [of "debug_state True"
          "[(''logger.go'', ''logger.(*Log).Debug'', 83), (''main.go'', ''main.run'', 12),
            (''main.go'', ''main.main'', 30)]"
          "''hello''" "[zap_Int ''n'' 1]"]
        Debug_appends_caller_location [of "debug_state True" "[]" "''hello''" "[zap_Int ''n'' 1]"]
        Debug_appends_caller_location [of "debug_state False"
          "[(''logger.go'', ''logger.(*Log).Debug'', 83), (''main.go'', ''main.run'', 12)]"
          "''hello''" "[zap_Int ''n'' 1]"]
  by (simp add: debug_state_def zero_Config_def itoa_12)

text \<open>
  C8. \<^verbatim>\<open>Init\<close> with a negative size or a negative number of backups returns the error
  \<^verbatim>\<open>Bad size or backup\<close> and leaves the state as it was: no level is set and \<^verbatim>\<open>Configure\<close>
  does not run. The file name of every path is non-empty, so this holds for every path.
\<close>

theorem Init_rejects_negative_size_or_backup:
  "sz < 0 \<or> backup < 0 \<Longrightarrow>
     Init r e file level sz backup stackstrace s
       = ((Log, Some (errors_New ''Bad size or backup'')), s)"
  by (simp add: Init_def Let_def filepath_Base_nonempty)

theorem Init_rejects_negative_witness:
  "Init logger_go env_tmp ''/tmp/app.log'' ''info'' (-1) 3 False (initial logger_go)
     = ((Log, Some (errors_New ''Bad size or backup'')), initial logger_go)"
  using Init_rejects_negative_size_or_backup
          [of "-1" 3 logger_go env_tmp "''/tmp/app.log''" "''info''" False "initial logger_go"]
  by simp

text \<open>
  C9. \<^verbatim>\<open>Init\<close> with the empty level name, a size and a number of backups that are not
  negative, and any path, returns no error, and the logger it publishes filters at
  \<^verbatim>\<open>ErrorLevel\<close>: it passes exactly the records of level error, dpanic, panic and fatal.
\<close>

theorem Init_empty_level_defaults_to_error:
  "0 \<le> sz \<Longrightarrow> 0 \<le> backup \<Longrightarrow>
     fst (Init r e file [] sz backup stackstrace s) = (Log, None)
     \<and> (\<exists>lg. DefaultZapLogger (snd (Init r e file [] sz backup stackstrace s)) = Some lg
            \<and> core_level lg = ErrorLevel
            \<and> (\<forall>l. Enabled lg l = (l \<in> {ErrorLevel, DPanicLevel, PanicLevel, FatalLevel})))"
  by (simp add: Init_def Let_def filepath_Base_nonempty SetLogLevel_def Configure_logger
        newZapLogger_level Enabled_ErrorLevel)

theorem Init_empty_level_witness:
  "fst (Init logger_go env_tmp ''/tmp/app.log'' [] 10 3 False (initial logger_go)) = (Log, None)
   \<and> map_option core_level
        (DefaultZapLogger (snd (Init logger_go env_tmp ''/tmp/app.log'' [] 10 3 False (initial logger_go))))
       = Some ErrorLevel"
  using Init_empty_level_defaults_to_error
          [of 10 3 logger_go env_tmp "''/tmp/app.log''" False "initial logger_go"]
  by auto

text \<open>
  C10. Whenever \<^verbatim>\<open>Init\<close> returns an error, the state after the call is the state before
  it: the published logger, the stored configuration with its level, and everything
  written so far.
\<close>

theorem Init_error_leaves_state_unchanged:
  "snd (fst (Init r e file level sz backup stackstrace s)) = Some err \<Longrightarrow>
     snd (Init r e file level sz backup stackstrace s) = s"
  by (auto simp add: Init_def Let_def filepath_Base_nonempty SetLogLevel_def split: if_splits)

theorem Init_error_leaves_state_unchanged_witness:
  "Init part_000 env_tmp ''/tmp/app.log'' ''verbose'' 10 3 True (initial part_000)
     = ((Log, Some (errors_New ''Bad log level'')), initial part_000)"
proof -
  have res: "fst (Init part_000 env_tmp ''/tmp/app.log'' ''verbose'' 10 3 True (initial part_000))
               = (Log, Some (errors_New ''Bad log level''))"
    by (simp add: Init_def Let_def filepath_Base_nonempty SetLogLevel_def)
  then have "snd (fst (Init part_000 env_tmp ''/tmp/app.log'' ''verbose'' 10 3 True (initial part_000)))
               = Some (errors_New ''Bad log level'')"
    by simp
  from Init_error_leaves_state_unchanged [OF this] res show ?thesis
    by (simp add: prod_eq_iff)
qed

end
